theory Spec2Isabelle
  imports Main "HOL-Library.Sublist"
begin

section \<open>JavaScript values\<close>

text \<open>
  The values that reach the hook's state: what \<^verbatim>\<open>JSON.parse\<close> can produce (null,
  booleans, numbers, strings, arrays, objects as lists of own properties) and
  \<^verbatim>\<open>undefined\<close>, the result of reading a property that is not there. The hook never
  computes with a number, so integral numbers stand for all of them.
\<close>

datatype jsval =
    JUndefined
  | JNull
  | JBool bool
  | JNum int
  | JStr string
  | JArr "jsval list"
  | JObj "(string \<times> jsval) list"

text \<open>
  An \<^verbatim>\<open>Error\<close> instance: its constructor's name and its \<^verbatim>\<open>message\<close>. Whatever
  is thrown in \<^verbatim>\<open>fetchJoke\<close> is one: the rejection of \<^verbatim>\<open>fetch\<close> (a TypeError or an
  AbortError), the rejection of \<^verbatim>\<open>response.json()\<close> (a SyntaxError), the TypeError of
  a property read, and the hook's own \<^verbatim>\<open>new Error(...)\<close>.
\<close>

datatype js_error = JsError (err_name: string) (message: string)

text \<open>ToBoolean: the falsy values are undefined, null, false, 0 and the empty string.\<close>

fun truthy :: "jsval \<Rightarrow> bool" where
  "truthy JUndefined = False"
| "truthy JNull = False"
| "truthy (JBool b) = b"
| "truthy (JNum n) = (n \<noteq> 0)"
| "truthy (JStr s) = (s \<noteq> [])"
| "truthy (JArr xs) = True"
| "truthy (JObj kvs) = True"

text \<open>
  Number-to-string of a non-negative integer, as the template literal
  \<^verbatim>\<open>${response.status}\<close> renders it: the decimal digits, most significant first
  (a status is a 16-bit unsigned number, far below the size where JavaScript switches
  to exponent notation).
\<close>

definition digit_char :: "nat \<Rightarrow> char" where
  "digit_char d = ''0123456789'' ! d"

fun number_to_string :: "nat \<Rightarrow> string" where
  "number_to_string n =
     (if n < 10 then [digit_char n]
      else number_to_string (n div 10) @ [digit_char (n mod 10)])"

declare number_to_string.simps [simp del]

text \<open>Reading a digit string back as a number, to state what the rendering means.\<close>

definition digit_value :: "char \<Rightarrow> nat" where
  "digit_value c = of_char c - 48"

fun string_to_number :: "nat \<Rightarrow> string \<Rightarrow> nat" where
  "string_to_number acc [] = acc"
| "string_to_number acc (c # cs) = string_to_number (10 * acc + digit_value c) cs"

section \<open>Effects and computations\<close>

text \<open>
  What an invocation does, in program order: calls of the three state setters, the
  outbound request, the log line, and the points where an \<^verbatim>\<open>await\<close> suspends the
  function and control returns to the caller.
\<close>

datatype effect =
    SetJoke jsval
  | SetIsLoading bool
  | SetError jsval
  | HttpGet string
  | ConsoleError string js_error
  | Suspend

text \<open>
  A computation yields the effects it performed and either the value it returned
  (\<open>Inr\<close>) or the exception it threw (\<open>Inl\<close>).
\<close>

type_synonym 'a comp = "effect list \<times> (js_error + 'a)"

definition return :: "'a \<Rightarrow> 'a comp" where
  "return x = ([], Inr x)"

definition throw :: "js_error \<Rightarrow> 'a comp" where
  "throw e = ([], Inl e)"

definition perform :: "effect \<Rightarrow> unit comp" where
  "perform e = ([e], Inr ())"

text \<open>Sequencing: the second computation runs only when the first did not throw.\<close>

definition and_then :: "'a comp \<Rightarrow> ('a \<Rightarrow> 'b comp) \<Rightarrow> 'b comp" where
  "and_then m f =
     (case m of
        (w, Inl e) \<Rightarrow> (w, Inl e)
      | (w, Inr x) \<Rightarrow> (case f x of (w', r) \<Rightarrow> (w @ w', r)))"

text \<open>
  \<^verbatim>\<open>try { body } catch (err) { handler } finally { cleanup }\<close>: the handler runs when
  the body threw, the cleanup runs in every case, and an exception of the cleanup
  replaces the outcome of what ran before it.
\<close>

definition try_catch_finally ::
  "unit comp \<Rightarrow> (js_error \<Rightarrow> unit comp) \<Rightarrow> unit comp \<Rightarrow> unit comp" where
  "try_catch_finally body handler cleanup =
     (case body of (w1, r1) \<Rightarrow>
        (case (case r1 of Inl err \<Rightarrow> handler err | Inr u \<Rightarrow> ([], Inr u)) of (w2, r2) \<Rightarrow>
           (case cleanup of (w3, r3) \<Rightarrow>
              (w1 @ w2 @ w3, (case r3 of Inl e \<Rightarrow> Inl e | Inr u \<Rightarrow> r2)))))"

text \<open>
  A promise that has settled. \<^verbatim>\<open>await\<close> suspends, then returns the value of a
  fulfilled promise and throws the reason of a rejected one.
\<close>

datatype 'a settled = Fulfilled 'a | Rejected js_error

definition await :: "'a settled \<Rightarrow> 'a comp" where
  "await p =
     and_then (perform Suspend)
       (\<lambda>_. case p of Fulfilled x \<Rightarrow> return x | Rejected e \<Rightarrow> throw e)"

section \<open>The platform: responses\<close>

text \<open>
  A \<^verbatim>\<open>Response\<close> as the hook sees it: the numeric status and what the promise of
  \<^verbatim>\<open>response.json()\<close> settles to (the parsed body, or the parser's exception).
\<close>

record response =
  status :: nat
  json :: "jsval settled"

text \<open>The \<^verbatim>\<open>ok\<close> getter of the Fetch standard: the status is in the range 200 to 299.\<close>

definition ok :: "response \<Rightarrow> bool" where
  "ok r = (200 \<le> status r \<and> status r \<le> 299)"

text \<open>
  \<^verbatim>\<open>data.joke\<close>: reading a property of null or undefined throws a TypeError (the
  message is the engine's, here V8's); an object gives its own property or undefined;
  booleans, numbers, strings and arrays have no property of that name.
\<close>

fun get_joke :: "jsval \<Rightarrow> jsval comp" where
  "get_joke JUndefined =
     throw (JsError ''TypeError'' ''Cannot read properties of undefined (reading 'joke')'')"
| "get_joke JNull =
     throw (JsError ''TypeError'' ''Cannot read properties of null (reading 'joke')'')"
| "get_joke (JObj kvs) =
     return (case map_of kvs ''joke'' of None \<Rightarrow> JUndefined | Some v \<Rightarrow> v)"
| "get_joke (JBool b) = return JUndefined"
| "get_joke (JNum n) = return JUndefined"
| "get_joke (JStr s) = return JUndefined"
| "get_joke (JArr xs) = return JUndefined"

section \<open>The hook useJoke\<close>

text \<open>The three pieces of state that \<^verbatim>\<open>useJoke\<close> holds and returns.\<close>

record fetch_state =
  joke :: jsval
  isLoading :: bool
  error :: jsval

text \<open>The arguments of the three \<^verbatim>\<open>useState\<close> calls.\<close>

definition useJoke_initial :: fetch_state where
  "useJoke_initial = \<lparr>joke = JStr [], isLoading = False, error = JNull\<rparr>"

text \<open>A setter replaces its piece of state; the other effects leave the state alone.\<close>

fun apply_effect :: "effect \<Rightarrow> fetch_state \<Rightarrow> fetch_state" where
  "apply_effect (SetJoke v) s = s\<lparr>joke := v\<rparr>"
| "apply_effect (SetIsLoading b) s = s\<lparr>isLoading := b\<rparr>"
| "apply_effect (SetError v) s = s\<lparr>error := v\<rparr>"
| "apply_effect (HttpGet u) s = s"
| "apply_effect (ConsoleError l e) s = s"
| "apply_effect Suspend s = s"

fun run :: "effect list \<Rightarrow> fetch_state \<Rightarrow> fetch_state" where
  "run [] s = s"
| "run (e # es) s = run es (apply_effect e s)"

fun is_setter :: "effect \<Rightarrow> bool" where
  "is_setter (SetJoke v) = True"
| "is_setter (SetIsLoading b) = True"
| "is_setter (SetError v) = True"
| "is_setter (HttpGet u) = False"
| "is_setter (ConsoleError l e) = False"
| "is_setter Suspend = False"

definition joke_url :: string where
  "joke_url = ''https://sv443.net/jokeapi/v2/joke/Programming?type=single''"

text \<open>
  \<^verbatim>\<open>fetchJoke\<close>, given what the promise of \<^verbatim>\<open>fetch(url)\<close> settles to.
\<close>

definition fetchJoke :: "response settled \<Rightarrow> unit comp" where
  "fetchJoke net =
     and_then (perform (SetIsLoading True)) (\<lambda>_.
     and_then (perform (SetError JNull)) (\<lambda>_.
     try_catch_finally
       (and_then (perform (HttpGet joke_url)) (\<lambda>_.
        and_then (await net) (\<lambda>response.
        and_then (if \<not> ok response
                  then throw (JsError ''Error''
                                (''HTTP error! status: '' @ number_to_string (status response)))
                  else return ()) (\<lambda>_.
        and_then (await (json response)) (\<lambda>data.
        and_then (get_joke data) (\<lambda>v.
        perform (SetJoke v)))))))
       (\<lambda>err.
          and_then (perform (SetError (JStr (message err)))) (\<lambda>_.
          perform (ConsoleError ''Error fetching joke:'' err)))
       (perform (SetIsLoading False))))"

definition clearJoke :: "unit comp" where
  "clearJoke =
     and_then (perform (SetJoke (JStr []))) (\<lambda>_.
     perform (SetError JNull))"

text \<open>The state once every effect of a computation has been applied.\<close>

definition state_after :: "'a comp \<Rightarrow> fetch_state \<Rightarrow> fetch_state" where
  "state_after m s = run (fst m) s"

text \<open>
  The state when the invocation first gives control back: the effects up to the
  first suspension.
\<close>

definition state_at_suspension :: "'a comp \<Rightarrow> fetch_state \<Rightarrow> fetch_state" where
  "state_at_suspension m s = run (takeWhile (\<lambda>e. e \<noteq> Suspend) (fst m)) s"

section \<open>The display component Joke\<close>

text \<open>
  The children of the \<^verbatim>\<open>div\<close> that \<^verbatim>\<open>Joke\<close> returns. A child is either a plain
  value (what \<^verbatim>\<open>a && b\<close> evaluates to when \<^verbatim>\<open>a\<close> is falsy) or an element: the
  button with its \<^verbatim>\<open>isLoading\<close> property, or one of the three paragraphs.
\<close>

datatype element =
    Button_element bool
  | P_error jsval
  | P_loading
  | P_joke_text jsval

datatype child = Value jsval | Element element

fun child_truthy :: "child \<Rightarrow> bool" where
  "child_truthy (Value v) = truthy v"
| "child_truthy (Element e) = True"

text \<open>\<^verbatim>\<open>a && b\<close> is \<^verbatim>\<open>a\<close> when \<^verbatim>\<open>a\<close> is falsy and \<^verbatim>\<open>b\<close> otherwise.\<close>

definition js_and :: "child \<Rightarrow> child \<Rightarrow> child" where
  "js_and a b = (if child_truthy a then b else a)"

definition Joke :: "fetch_state \<Rightarrow> child list" where
  "Joke s =
     [Element (Button_element (isLoading s)),
      js_and (Value (error s)) (Element (P_error (error s))),
      js_and (Value (JBool (isLoading s))) (Element P_loading),
      js_and (js_and (Value (joke s)) (Value (JBool (\<not> isLoading s))))
        (Element (P_joke_text (joke s)))]"

fun is_error_message :: "child \<Rightarrow> bool" where
  "is_error_message (Element (P_error v)) = True"
| "is_error_message c = False"

fun is_loading_indicator :: "child \<Rightarrow> bool" where
  "is_loading_indicator (Element P_loading) = True"
| "is_loading_indicator c = False"

fun is_joke_text :: "child \<Rightarrow> bool" where
  "is_joke_text (Element (P_joke_text v)) = True"
| "is_joke_text c = False"

definition renders_error :: "child list \<Rightarrow> bool" where
  "renders_error cs = (filter is_error_message cs \<noteq> [])"

definition renders_loading :: "child list \<Rightarrow> bool" where
  "renders_loading cs = (filter is_loading_indicator cs \<noteq> [])"

definition renders_joke_text :: "child list \<Rightarrow> bool" where
  "renders_joke_text cs = (filter is_joke_text cs \<noteq> [])"

section \<open>Decimal rendering\<close>

lemma digit_value_digit_char: "d < 10 \<Longrightarrow> digit_value (digit_char d) = d"
proof -
  assume "d < 10"
  then have "d \<in> {0, 1, 2, 3, 4, 5, 6, 7, 8, 9}" by auto
  then show ?thesis
    by (auto simp: digit_value_def digit_char_def)
qed

lemma string_to_number_append:
  "string_to_number acc (xs @ ys) = string_to_number (string_to_number acc xs) ys"
  by (induction xs arbitrary: acc) simp_all

text \<open>The digits written for \<open>n\<close> read back as \<open>n\<close>.\<close>

lemma number_to_string_inverse: "string_to_number 0 (number_to_string n) = n"
proof (induction n rule: number_to_string.induct)
  case (1 n)
  show ?case
  proof (cases "n < 10")
    case True
    then show ?thesis
      by (simp add: number_to_string.simps [of n] digit_value_digit_char)
  next
    case False
    with 1 have "string_to_number 0 (number_to_string (n div 10)) = n div 10" by simp
    with False show ?thesis
      by (simp add: number_to_string.simps [of n] string_to_number_append
          digit_value_digit_char)
  qed
qed

lemma number_to_string_nonempty: "number_to_string n \<noteq> []"
  by (simp add: number_to_string.simps [of n])

section \<open>The effects of fetchJoke, outcome by outcome\<close>

lemmas comp_defs =
  return_def throw_def perform_def and_then_def try_catch_finally_def await_def

text \<open>The request itself fails: one suspension, then the handler and the cleanup.\<close>

lemma fetchJoke_rejected:
  "fetchJoke (Rejected e) =
     ([SetIsLoading True, SetError JNull, HttpGet joke_url, Suspend,
       SetError (JStr (message e)), ConsoleError ''Error fetching joke:'' e,
       SetIsLoading False], Inr ())"
  by (simp add: fetchJoke_def comp_defs)

text \<open>A response whose status is not a success status: the hook throws its own error.\<close>

lemma fetchJoke_not_ok:
  "\<not> ok r \<Longrightarrow> fetchJoke (Fulfilled r) =
     ([SetIsLoading True, SetError JNull, HttpGet joke_url, Suspend,
       SetError (JStr (''HTTP error! status: '' @ number_to_string (status r))),
       ConsoleError ''Error fetching joke:''
         (JsError ''Error'' (''HTTP error! status: '' @ number_to_string (status r))),
       SetIsLoading False], Inr ())"
  by (simp add: fetchJoke_def comp_defs)

text \<open>A success status with a body that does not parse.\<close>

lemma fetchJoke_json_rejected:
  "ok r \<Longrightarrow> json r = Rejected e \<Longrightarrow> fetchJoke (Fulfilled r) =
     ([SetIsLoading True, SetError JNull, HttpGet joke_url, Suspend, Suspend,
       SetError (JStr (message e)), ConsoleError ''Error fetching joke:'' e,
       SetIsLoading False], Inr ())"
  by (simp add: fetchJoke_def comp_defs)

text \<open>A success status with a body that parses to \<open>d\<close>, when \<^verbatim>\<open>d.joke\<close> throws.\<close>

lemma fetchJoke_get_joke_throws:
  "ok r \<Longrightarrow> json r = Fulfilled d \<Longrightarrow> get_joke d = ([], Inl e) \<Longrightarrow>
   fetchJoke (Fulfilled r) =
     ([SetIsLoading True, SetError JNull, HttpGet joke_url, Suspend, Suspend,
       SetError (JStr (message e)), ConsoleError ''Error fetching joke:'' e,
       SetIsLoading False], Inr ())"
  by (simp add: fetchJoke_def comp_defs)

text \<open>A success status with a body that parses to \<open>d\<close>, when \<^verbatim>\<open>d.joke\<close> is \<open>v\<close>.\<close>

lemma fetchJoke_get_joke_returns:
  "ok r \<Longrightarrow> json r = Fulfilled d \<Longrightarrow> get_joke d = ([], Inr v) \<Longrightarrow>
   fetchJoke (Fulfilled r) =
     ([SetIsLoading True, SetError JNull, HttpGet joke_url, Suspend, Suspend,
       SetJoke v, SetIsLoading False], Inr ())"
  by (simp add: fetchJoke_def comp_defs)

lemma get_joke_cases:
  "(\<exists>e. get_joke d = ([], Inl e)) \<or> (\<exists>v. get_joke d = ([], Inr v))"
  by (cases d) (simp_all add: return_def throw_def)

text \<open>Every invocation falls under one of the five outcomes above.\<close>

lemma fetchJoke_outcomes:
  obtains (transport) e where "net = Rejected e"
  | (status) r where "net = Fulfilled r" "\<not> ok r"
  | (parse) r e where "net = Fulfilled r" "ok r" "json r = Rejected e"
  | (property) r d e where
      "net = Fulfilled r" "ok r" "json r = Fulfilled d" "get_joke d = ([], Inl e)"
  | (success) r d v where
      "net = Fulfilled r" "ok r" "json r = Fulfilled d" "get_joke d = ([], Inr v)"
proof (cases net)
  case (Rejected e)
  then show ?thesis by (rule transport)
next
  case (Fulfilled r)
  show ?thesis
  proof (cases "ok r")
    case False
    with Fulfilled show ?thesis by (rule status)
  next
    case True
    show ?thesis
    proof (cases "json r")
      case (Rejected e)
      with Fulfilled True show ?thesis by (rule parse)
    next
      case inner: (Fulfilled d)
      from get_joke_cases [of d] show ?thesis
      proof (elim disjE exE)
        fix e assume "get_joke d = ([], Inl e)"
        with Fulfilled True inner show ?thesis by (rule property)
      next
        fix v assume "get_joke d = ([], Inr v)"
        with Fulfilled True inner show ?thesis by (rule success)
      qed
    qed
  qed
qed

lemma status_at_least_400_not_ok: "400 \<le> status r \<Longrightarrow> \<not> ok r"
  by (simp add: ok_def)

section \<open>Initial state\<close>

text \<open>
  C7: after construction, before any operation is invoked, the state is exactly
  content = "", isLoading = false, error = null.
\<close>

theorem useJoke_initial_state:
  "joke useJoke_initial = JStr [] \<and>
   isLoading useJoke_initial = False \<and>
   error useJoke_initial = JNull"
  by (simp add: useJoke_initial_def)

section \<open>fetchJoke\<close>

text \<open>
  C6: invoking fetchJoke establishes, by the time it first suspends (the request has
  been issued and has not settled), isLoading = true and error = null, and leaves the
  content at its prior value. The effects before the first suspension are the two
  setter calls and the request, whatever the request will settle to.
\<close>

theorem fetchJoke_synchronous_part:
  "isLoading (state_at_suspension (fetchJoke net) s) = True \<and>
   error (state_at_suspension (fetchJoke net) s) = JNull \<and>
   joke (state_at_suspension (fetchJoke net) s) = joke s \<and>
   takeWhile (\<lambda>e. e \<noteq> Suspend) (fst (fetchJoke net)) =
     [SetIsLoading True, SetError JNull, HttpGet joke_url] \<and>
   Suspend \<in> set (fst (fetchJoke net))"
proof (cases net rule: fetchJoke_outcomes)
  case (transport e)
  then show ?thesis
    by (simp add: fetchJoke_rejected state_at_suspension_def)
next
  case (status r)
  then show ?thesis
    by (simp add: fetchJoke_not_ok state_at_suspension_def)
next
  case (parse r e)
  then show ?thesis
    by (simp add: fetchJoke_json_rejected state_at_suspension_def)
next
  case (property r d e)
  then show ?thesis
    by (simp add: fetchJoke_get_joke_throws [of r d e] state_at_suspension_def)
next
  case (success r d v)
  then show ?thesis
    by (simp add: fetchJoke_get_joke_returns [of r d v] state_at_suspension_def)
qed

text \<open>
  C1: for a response with a success status whose body parses to an object with the
  property joke equal to a string \<open>S\<close>, the settled state has content = \<open>S\<close>,
  error = null and isLoading = false, whatever the state was before the call. (The
  proof does not need \<open>S\<close> to be non-empty, nor the object to have no other property.)
\<close>

theorem fetchJoke_success:
  assumes "ok r" and "json r = Fulfilled (JObj kvs)"
    and "map_of kvs ''joke'' = Some (JStr S)"
  shows "joke (state_after (fetchJoke (Fulfilled r)) s) = JStr S \<and>
         error (state_after (fetchJoke (Fulfilled r)) s) = JNull \<and>
         isLoading (state_after (fetchJoke (Fulfilled r)) s) = False"
proof -
  from assms(3) have "get_joke (JObj kvs) = ([], Inr (JStr S))"
    by (simp add: return_def)
  with assms(1,2) have "fetchJoke (Fulfilled r) =
     ([SetIsLoading True, SetError JNull, HttpGet joke_url, Suspend, Suspend,
       SetJoke (JStr S), SetIsLoading False], Inr ())"
    by (rule fetchJoke_get_joke_returns)
  then show ?thesis
    by (simp add: state_after_def)
qed

text \<open>
  C1, at the response of scenario A (status 200, the dark-mode joke), starting from a
  state with stale content, a stale error and the loading flag set.
\<close>

theorem fetchJoke_success_witness:
  "ok \<lparr>status = 200,
       json = Fulfilled (JObj [(''joke'',
         JStr ''Why do programmers prefer dark mode? Because light attracts bugs.'')])\<rparr> \<and>
   joke (state_after
          (fetchJoke (Fulfilled \<lparr>status = 200,
             json = Fulfilled (JObj [(''joke'',
               JStr ''Why do programmers prefer dark mode? Because light attracts bugs.'')])\<rparr>))
          \<lparr>joke = JStr ''stale'', isLoading = True, error = JStr ''old''\<rparr>)
     = JStr ''Why do programmers prefer dark mode? Because light attracts bugs.'' \<and>
   error (state_after
          (fetchJoke (Fulfilled \<lparr>status = 200,
             json = Fulfilled (JObj [(''joke'',
               JStr ''Why do programmers prefer dark mode? Because light attracts bugs.'')])\<rparr>))
          \<lparr>joke = JStr ''stale'', isLoading = True, error = JStr ''old''\<rparr>)
     = JNull \<and>
   isLoading (state_after
          (fetchJoke (Fulfilled \<lparr>status = 200,
             json = Fulfilled (JObj [(''joke'',
               JStr ''Why do programmers prefer dark mode? Because light attracts bugs.'')])\<rparr>))
          \<lparr>joke = JStr ''stale'', isLoading = True, error = JStr ''old''\<rparr>)
     = False"
  using fetchJoke_success
    [of "\<lparr>status = 200,
          json = Fulfilled (JObj [(''joke'',
            JStr ''Why do programmers prefer dark mode? Because light attracts bugs.'')])\<rparr>"
        "[(''joke'', JStr ''Why do programmers prefer dark mode? Because light attracts bugs.'')]"
        "''Why do programmers prefer dark mode? Because light attracts bugs.''"
        "\<lparr>joke = JStr ''stale'', isLoading = True, error = JStr ''old''\<rparr>"]
  by (simp add: ok_def)

text \<open>
  C2 as stated fails on one kind of parse failure. A response with status 200 whose
  body is the object \<^verbatim>\<open>{}\<close>, valid JSON that lacks the joke field, is not a failure
  for the code: starting from stale content, error is null after settlement and the
  stale content has been replaced by undefined.
\<close>

theorem lacking_field_failure_counterexample:
  "ok \<lparr>status = 200, json = Fulfilled (JObj [])\<rparr> \<and>
   map_of ([] :: (string \<times> jsval) list) ''joke'' = None \<and>
   error (state_after
      (fetchJoke (Fulfilled \<lparr>status = 200, json = Fulfilled (JObj [])\<rparr>))
      \<lparr>joke = JStr ''stale'', isLoading = False, error = JNull\<rparr>) = JNull \<and>
   joke (state_after
      (fetchJoke (Fulfilled \<lparr>status = 200, json = Fulfilled (JObj [])\<rparr>))
      \<lparr>joke = JStr ''stale'', isLoading = False, error = JNull\<rparr>) = JUndefined \<and>
   joke (state_after
      (fetchJoke (Fulfilled \<lparr>status = 200, json = Fulfilled (JObj [])\<rparr>))
      \<lparr>joke = JStr ''stale'', isLoading = False, error = JNull\<rparr>) \<noteq> JStr ''stale''"
  by (simp add: fetchJoke_get_joke_returns [of _ "JObj []" JUndefined]
      ok_def return_def state_after_def)

text \<open>
  C2, amended: when the attempt fails in the code, because the request is rejected
  (transport failure), or the response has a status that is not a success status
  (every status from 400 on is one, by \<open>status_at_least_400_not_ok\<close>), or the body is
  not valid JSON, or the body is null so that reading the joke field throws, then
  after settlement error is not null (it is a string), the content is what it was
  before the call and isLoading is false; in the status case the message contains
  the decimal digits of the status. A valid body other than null that lacks the joke
  field is not among these failures.
\<close>

theorem fetchJoke_failure:
  assumes "net = Rejected e \<or>
           (net = Fulfilled r \<and> \<not> ok r) \<or>
           (net = Fulfilled r \<and> ok r \<and> json r = Rejected e) \<or>
           (net = Fulfilled r \<and> ok r \<and> json r = Fulfilled JNull)"
  shows "error (state_after (fetchJoke net) s) \<noteq> JNull \<and>
         (\<exists>m. error (state_after (fetchJoke net) s) = JStr m) \<and>
         joke (state_after (fetchJoke net) s) = joke s \<and>
         isLoading (state_after (fetchJoke net) s) = False \<and>
         (net = Fulfilled r \<and> \<not> ok r \<longrightarrow>
            (\<exists>m. error (state_after (fetchJoke net) s) = JStr m \<and>
                 sublist (number_to_string (status r)) m))"
  using assms
proof (elim disjE conjE)
  assume "net = Rejected e"
  then show ?thesis
    by (simp add: fetchJoke_rejected state_after_def)
next
  assume net: "net = Fulfilled r" and status: "\<not> ok r"
  let ?m = "''HTTP error! status: '' @ number_to_string (status r)"
  from net status have err: "error (state_after (fetchJoke net) s) = JStr ?m"
    by (simp add: fetchJoke_not_ok state_after_def)
  from net status have rest: "joke (state_after (fetchJoke net) s) = joke s \<and>
      isLoading (state_after (fetchJoke net) s) = False"
    by (simp add: fetchJoke_not_ok state_after_def)
  have "sublist (number_to_string (status r)) ?m"
    by (rule sublist_append_leftI)
  with err have "\<exists>m. error (state_after (fetchJoke net) s) = JStr m \<and>
      sublist (number_to_string (status r)) m"
    by blast
  moreover from err have "error (state_after (fetchJoke net) s) \<noteq> JNull"
    by simp
  ultimately show ?thesis
    using rest by blast
next
  assume "net = Fulfilled r" and "ok r" and "json r = Rejected e"
  then show ?thesis
    by (simp add: fetchJoke_json_rejected state_after_def)
next
  assume net: "net = Fulfilled r" and status: "ok r" and body: "json r = Fulfilled JNull"
  have "get_joke JNull =
      ([], Inl (JsError ''TypeError'' ''Cannot read properties of null (reading 'joke')''))"
    by (simp add: throw_def)
  with status body have "fetchJoke (Fulfilled r) =
     ([SetIsLoading True, SetError JNull, HttpGet joke_url, Suspend, Suspend,
       SetError (JStr (message
         (JsError ''TypeError'' ''Cannot read properties of null (reading 'joke')''))),
       ConsoleError ''Error fetching joke:''
         (JsError ''TypeError'' ''Cannot read properties of null (reading 'joke')''),
       SetIsLoading False], Inr ())"
    by (rule fetchJoke_get_joke_throws)
  with net status show ?thesis
    by (simp add: state_after_def)
qed

text \<open>
  C2, amended, at one input of each kind: a rejected request, a response with status
  500 (scenario B), a response with status 200 whose body is not JSON (scenario C),
  and a response with status 200 whose body is null, each starting from a state with
  stale content.
\<close>

theorem fetchJoke_failure_witness:
  "error (state_after (fetchJoke (Rejected (JsError ''TypeError'' ''Failed to fetch'')))
      \<lparr>joke = JStr ''stale'', isLoading = False, error = JNull\<rparr>) \<noteq> JNull \<and>
   joke (state_after (fetchJoke (Rejected (JsError ''TypeError'' ''Failed to fetch'')))
      \<lparr>joke = JStr ''stale'', isLoading = False, error = JNull\<rparr>) = JStr ''stale'' \<and>
   isLoading (state_after (fetchJoke (Rejected (JsError ''TypeError'' ''Failed to fetch'')))
      \<lparr>joke = JStr ''stale'', isLoading = False, error = JNull\<rparr>) = False \<and>
   \<not> ok \<lparr>status = 500,
          json = Rejected (JsError ''SyntaxError'' ''Unexpected end of JSON input'')\<rparr> \<and>
   (\<exists>m. error (state_after
          (fetchJoke (Fulfilled \<lparr>status = 500,
             json = Rejected (JsError ''SyntaxError'' ''Unexpected end of JSON input'')\<rparr>))
          \<lparr>joke = JStr ''stale'', isLoading = False, error = JNull\<rparr>) = JStr m \<and>
        sublist ''500'' m) \<and>
   joke (state_after
          (fetchJoke (Fulfilled \<lparr>status = 500,
             json = Rejected (JsError ''SyntaxError'' ''Unexpected end of JSON input'')\<rparr>))
          \<lparr>joke = JStr ''stale'', isLoading = False, error = JNull\<rparr>) = JStr ''stale'' \<and>
   ok \<lparr>status = 200, json = Rejected (JsError ''SyntaxError'' ''Unexpected token'')\<rparr> \<and>
   error (state_after
          (fetchJoke (Fulfilled \<lparr>status = 200,
             json = Rejected (JsError ''SyntaxError'' ''Unexpected token'')\<rparr>))
          \<lparr>joke = JStr ''stale'', isLoading = False, error = JNull\<rparr>) \<noteq> JNull \<and>
   joke (state_after
          (fetchJoke (Fulfilled \<lparr>status = 200,
             json = Rejected (JsError ''SyntaxError'' ''Unexpected token'')\<rparr>))
          \<lparr>joke = JStr ''stale'', isLoading = False, error = JNull\<rparr>) = JStr ''stale'' \<and>
   ok \<lparr>status = 200, json = Fulfilled JNull\<rparr> \<and>
   error (state_after
          (fetchJoke (Fulfilled \<lparr>status = 200, json = Fulfilled JNull\<rparr>))
          \<lparr>joke = JStr ''stale'', isLoading = False, error = JNull\<rparr>) \<noteq> JNull \<and>
   joke (state_after
          (fetchJoke (Fulfilled \<lparr>status = 200, json = Fulfilled JNull\<rparr>))
          \<lparr>joke = JStr ''stale'', isLoading = False, error = JNull\<rparr>) = JStr ''stale'' \<and>
   isLoading (state_after
          (fetchJoke (Fulfilled \<lparr>status = 200, json = Fulfilled JNull\<rparr>))
          \<lparr>joke = JStr ''stale'', isLoading = False, error = JNull\<rparr>) = False"
  using
    fetchJoke_failure
      [of "Rejected (JsError ''TypeError'' ''Failed to fetch'')"
          "JsError ''TypeError'' ''Failed to fetch''"
          "\<lparr>status = 500,
            json = Rejected (JsError ''SyntaxError'' ''Unexpected end of JSON input'')\<rparr>"
          "\<lparr>joke = JStr ''stale'', isLoading = False, error = JNull\<rparr>"]
    fetchJoke_failure
      [of "Fulfilled \<lparr>status = 500,
             json = Rejected (JsError ''SyntaxError'' ''Unexpected end of JSON input'')\<rparr>"
          "JsError ''SyntaxError'' ''Unexpected end of JSON input''"
          "\<lparr>status = 500,
            json = Rejected (JsError ''SyntaxError'' ''Unexpected end of JSON input'')\<rparr>"
          "\<lparr>joke = JStr ''stale'', isLoading = False, error = JNull\<rparr>"]
    fetchJoke_failure
      [of "Fulfilled \<lparr>status = 200,
             json = Rejected (JsError ''SyntaxError'' ''Unexpected token'')\<rparr>"
          "JsError ''SyntaxError'' ''Unexpected token''"
          "\<lparr>status = 200, json = Rejected (JsError ''SyntaxError'' ''Unexpected token'')\<rparr>"
          "\<lparr>joke = JStr ''stale'', isLoading = False, error = JNull\<rparr>"]
    fetchJoke_failure
      [of "Fulfilled \<lparr>status = 200, json = Fulfilled JNull\<rparr>"
          "JsError ''TypeError'' ''Cannot read properties of null (reading 'joke')''"
          "\<lparr>status = 200, json = Fulfilled JNull\<rparr>"
          "\<lparr>joke = JStr ''stale'', isLoading = False, error = JNull\<rparr>"]
  by (simp add: ok_def number_to_string.simps digit_char_def)

text \<open>
  C3: whatever the request settles to (success, status error, transport failure,
  parse failure, failing property read), isLoading is false afterwards; the call
  \<^verbatim>\<open>setIsLoading(false)\<close> is the last effect of the invocation, hence its last
  state mutation, and the invocation itself never ends with an exception.
\<close>

theorem fetchJoke_isLoading_cleared:
  "isLoading (state_after (fetchJoke net) s) = False \<and>
   last (fst (fetchJoke net)) = SetIsLoading False \<and>
   last (filter is_setter (fst (fetchJoke net))) = SetIsLoading False \<and>
   snd (fetchJoke net) = Inr ()"
proof (cases net rule: fetchJoke_outcomes)
  case (transport e)
  then show ?thesis
    by (simp add: fetchJoke_rejected state_after_def)
next
  case (status r)
  then show ?thesis
    by (simp add: fetchJoke_not_ok state_after_def)
next
  case (parse r e)
  then show ?thesis
    by (simp add: fetchJoke_json_rejected state_after_def)
next
  case (property r d e)
  then show ?thesis
    by (simp add: fetchJoke_get_joke_throws [of r d e] state_after_def)
next
  case (success r d v)
  then show ?thesis
    by (simp add: fetchJoke_get_joke_returns [of r d v] state_after_def)
qed

text \<open>
  C10: for a response whose status \<open>n\<close> is not a success status, the settled error is
  exactly "HTTP error! status: " followed by the decimal digits of \<open>n\<close>.
\<close>

theorem fetchJoke_http_error_message:
  assumes "\<not> ok r"
  shows "error (state_after (fetchJoke (Fulfilled r)) s) =
           JStr (''HTTP error! status: '' @ number_to_string (status r))"
  using assms by (simp add: fetchJoke_not_ok state_after_def)

text \<open>C10, at a response with status 404.\<close>

theorem fetchJoke_http_error_message_witness:
  "\<not> ok \<lparr>status = 404, json = Fulfilled (JObj [])\<rparr> \<and>
   error (state_after (fetchJoke (Fulfilled \<lparr>status = 404, json = Fulfilled (JObj [])\<rparr>))
      useJoke_initial) = JStr ''HTTP error! status: 404''"
  using fetchJoke_http_error_message
    [of "\<lparr>status = 404, json = Fulfilled (JObj [])\<rparr>" useJoke_initial]
  by (simp add: ok_def number_to_string.simps digit_char_def)

subsection \<open>A body without the joke property\<close>

text \<open>
  C4 as stated fails: for a response with status 200 whose body is the object
  \<^verbatim>\<open>{"error": false}\<close>, valid JSON without a joke property, no failure is raised and
  nothing is stored in error. The property read gives undefined, which becomes the
  content, and error stays null.
\<close>

theorem missing_field_counterexample:
  "ok \<lparr>status = 200, json = Fulfilled (JObj [(''error'', JBool False)])\<rparr> \<and>
   map_of [(''error'', JBool False)] ''joke'' = None \<and>
   error (state_after
      (fetchJoke (Fulfilled \<lparr>status = 200,
         json = Fulfilled (JObj [(''error'', JBool False)])\<rparr>))
      useJoke_initial) = JNull \<and>
   joke (state_after
      (fetchJoke (Fulfilled \<lparr>status = 200,
         json = Fulfilled (JObj [(''error'', JBool False)])\<rparr>))
      useJoke_initial) = JUndefined"
  by (simp add: fetchJoke_get_joke_returns [of _ "JObj [(''error'', JBool False)]" JUndefined]
      ok_def return_def state_after_def useJoke_initial_def)

text \<open>
  C4, amended: for a response with a success status whose body is valid JSON without
  a joke property, the invocation never ends with an exception and isLoading is false
  afterwards. When the body is null, the TypeError of the property read is caught and
  its message is stored in error, the content unchanged. For every other such body
  (an object without the property, an array, a number, a string, a boolean) nothing
  fails: error is null and the content becomes undefined.
\<close>

theorem fetchJoke_body_without_joke:
  assumes "ok r" and "json r = Fulfilled d"
    and "\<forall>kvs. d = JObj kvs \<longrightarrow> map_of kvs ''joke'' = None"
  shows "snd (fetchJoke (Fulfilled r)) = Inr () \<and>
         isLoading (state_after (fetchJoke (Fulfilled r)) s) = False \<and>
         (if d = JNull \<or> d = JUndefined
          then (\<exists>m. error (state_after (fetchJoke (Fulfilled r)) s) = JStr m) \<and>
               (\<exists>e. get_joke d = ([], Inl e) \<and>
                  error (state_after (fetchJoke (Fulfilled r)) s) = JStr (message e)) \<and>
               joke (state_after (fetchJoke (Fulfilled r)) s) = joke s
          else error (state_after (fetchJoke (Fulfilled r)) s) = JNull \<and>
               joke (state_after (fetchJoke (Fulfilled r)) s) = JUndefined)"
proof (cases "d = JNull \<or> d = JUndefined")
  case True
  then obtain e where thrown: "get_joke d = ([], Inl e)"
    by (auto simp: throw_def)
  with assms(1,2) have effects: "fetchJoke (Fulfilled r) =
     ([SetIsLoading True, SetError JNull, HttpGet joke_url, Suspend, Suspend,
       SetError (JStr (message e)), ConsoleError ''Error fetching joke:'' e,
       SetIsLoading False], Inr ())"
    by (rule fetchJoke_get_joke_throws)
  then have stored: "error (state_after (fetchJoke (Fulfilled r)) s) = JStr (message e)"
    by (simp add: state_after_def)
  with thrown have "\<exists>e. get_joke d = ([], Inl e) \<and>
      error (state_after (fetchJoke (Fulfilled r)) s) = JStr (message e)"
    by blast
  moreover from stored have "\<exists>m. error (state_after (fetchJoke (Fulfilled r)) s) = JStr m"
    by blast
  moreover from effects have "snd (fetchJoke (Fulfilled r)) = Inr () \<and>
      isLoading (state_after (fetchJoke (Fulfilled r)) s) = False \<and>
      joke (state_after (fetchJoke (Fulfilled r)) s) = joke s"
    by (simp add: state_after_def)
  ultimately show ?thesis
    using True by simp
next
  case False
  with assms(3) have "get_joke d = ([], Inr JUndefined)"
    by (cases d) (simp_all add: return_def)
  with assms(1,2) have "fetchJoke (Fulfilled r) =
     ([SetIsLoading True, SetError JNull, HttpGet joke_url, Suspend, Suspend,
       SetJoke JUndefined, SetIsLoading False], Inr ())"
    by (rule fetchJoke_get_joke_returns)
  with False show ?thesis
    by (simp add: state_after_def)
qed

text \<open>
  C4, amended, at two bodies: the object \<^verbatim>\<open>{"error": false}\<close> and the value null, each
  with status 200 and starting from a state with stale content and a stale error.
\<close>

theorem fetchJoke_body_without_joke_witness:
  "ok \<lparr>status = 200, json = Fulfilled (JObj [(''error'', JBool False)])\<rparr> \<and>
   map_of [(''error'', JBool False)] ''joke'' = None \<and>
   snd (fetchJoke (Fulfilled \<lparr>status = 200,
          json = Fulfilled (JObj [(''error'', JBool False)])\<rparr>)) = Inr () \<and>
   error (state_after
      (fetchJoke (Fulfilled \<lparr>status = 200,
         json = Fulfilled (JObj [(''error'', JBool False)])\<rparr>))
      \<lparr>joke = JStr ''stale'', isLoading = False, error = JStr ''old''\<rparr>) = JNull \<and>
   joke (state_after
      (fetchJoke (Fulfilled \<lparr>status = 200,
         json = Fulfilled (JObj [(''error'', JBool False)])\<rparr>))
      \<lparr>joke = JStr ''stale'', isLoading = False, error = JStr ''old''\<rparr>) = JUndefined \<and>
   ok \<lparr>status = 200, json = Fulfilled JNull\<rparr> \<and>
   (\<exists>m. error (state_after
      (fetchJoke (Fulfilled \<lparr>status = 200, json = Fulfilled JNull\<rparr>))
      \<lparr>joke = JStr ''stale'', isLoading = False, error = JStr ''old''\<rparr>) = JStr m) \<and>
   joke (state_after
      (fetchJoke (Fulfilled \<lparr>status = 200, json = Fulfilled JNull\<rparr>))
      \<lparr>joke = JStr ''stale'', isLoading = False, error = JStr ''old''\<rparr>) = JStr ''stale''"
  using
    fetchJoke_body_without_joke
      [of "\<lparr>status = 200, json = Fulfilled (JObj [(''error'', JBool False)])\<rparr>"
          "JObj [(''error'', JBool False)]"
          "\<lparr>joke = JStr ''stale'', isLoading = False, error = JStr ''old''\<rparr>"]
    fetchJoke_body_without_joke
      [of "\<lparr>status = 200, json = Fulfilled JNull\<rparr>" JNull
          "\<lparr>joke = JStr ''stale'', isLoading = False, error = JStr ''old''\<rparr>"]
  by (simp add: ok_def)

section \<open>clearJoke\<close>

lemma clearJoke_effects: "clearJoke = ([SetJoke (JStr []), SetError JNull], Inr ())"
  by (simp add: clearJoke_def perform_def and_then_def)

text \<open>
  C8: from every state, clearJoke sets the content to "" and error to null and leaves
  isLoading as it was. Its effects are the two setter calls and nothing else: no
  call of the isLoading setter, no request, no log line, no exception.
\<close>

theorem clearJoke_resets:
  "joke (state_after clearJoke s) = JStr [] \<and>
   error (state_after clearJoke s) = JNull \<and>
   isLoading (state_after clearJoke s) = isLoading s \<and>
   state_after clearJoke s = s\<lparr>joke := JStr [], error := JNull\<rparr> \<and>
   filter (\<lambda>e. \<not> is_setter e) (fst clearJoke) = [] \<and>
   fst clearJoke = [SetJoke (JStr []), SetError JNull] \<and>
   snd clearJoke = Inr ()"
  by (simp add: clearJoke_effects state_after_def)

text \<open>
  C9: clearJoke is idempotent: from every state, applying it twice gives the state
  that applying it once gives.
\<close>

theorem clearJoke_idempotent:
  "state_after clearJoke (state_after clearJoke s) = state_after clearJoke s"
  by (simp add: clearJoke_effects state_after_def)

section \<open>What the component Joke renders\<close>

lemma renders_error_iff: "renders_error (Joke s) = truthy (error s)"
  by (simp add: renders_error_def Joke_def js_and_def)

lemma renders_loading_iff: "renders_loading (Joke s) = isLoading s"
  by (simp add: renders_loading_def Joke_def js_and_def)

lemma renders_joke_text_iff:
  "renders_joke_text (Joke s) = (truthy (joke s) \<and> \<not> isLoading s)"
  by (simp add: renders_joke_text_def Joke_def js_and_def)

text \<open>
  C5 as stated fails: the three outputs are not mutually exclusive. After a fetch
  that succeeds with the joke "ha" and a second fetch that fails with status 500,
  the state holds the stale joke and the error, and the component renders both the
  error message and the joke text.
\<close>

theorem error_and_joke_rendered_counterexample:
  "renders_error (Joke
     (state_after (fetchJoke (Fulfilled \<lparr>status = 500, json = Fulfilled JNull\<rparr>))
       (state_after
          (fetchJoke (Fulfilled \<lparr>status = 200,
             json = Fulfilled (JObj [(''joke'', JStr ''ha'')])\<rparr>))
          useJoke_initial))) \<and>
   renders_joke_text (Joke
     (state_after (fetchJoke (Fulfilled \<lparr>status = 500, json = Fulfilled JNull\<rparr>))
       (state_after
          (fetchJoke (Fulfilled \<lparr>status = 200,
             json = Fulfilled (JObj [(''joke'', JStr ''ha'')])\<rparr>))
          useJoke_initial)))"
  by (simp add: renders_error_iff renders_joke_text_iff state_after_def useJoke_initial_def
      fetchJoke_not_ok ok_def
      fetchJoke_get_joke_returns [of _ "JObj [(''joke'', JStr ''ha'')]" "JStr ''ha''"]
      return_def)

text \<open>
  C5, amended: for every state, the component renders the error message exactly when
  error is truthy (not null and not the empty string), the loading indicator exactly
  when isLoading is true, and the joke text exactly when the content is truthy and
  isLoading is false. The loading indicator and the joke text are never rendered
  together; the error message is rendered independently of the other two.
\<close>

theorem Joke_rendering:
  "renders_error (Joke s) = truthy (error s) \<and>
   renders_loading (Joke s) = isLoading s \<and>
   renders_joke_text (Joke s) = (truthy (joke s) \<and> \<not> isLoading s) \<and>
   \<not> (renders_loading (Joke s) \<and> renders_joke_text (Joke s))"
  by (simp add: renders_error_iff renders_loading_iff renders_joke_text_iff)

end
